theory Spec2Isabelle
  imports Complex_Main "HOL-Library.Word"
begin

section \<open>Data model\<close>

text \<open>
  The source declares \<^verbatim>\<open>struct Coordinate { double lat; double lon; long long time; }\<close>.

  Numbers are modelled as follows.
  \<^item> A finite \<^verbatim>\<open>double\<close> is a \<^typ>\<open>real\<close>, and the arithmetic on finite values is exact:
    rounding, overflow and underflow of IEEE 754 are not part of this model. Coordinates
    are decoded from JSON numbers, which are finite.
  \<^item> The only operation of the program that leaves the finite values under exact
    arithmetic is the division of lines 52 and 53, whose divisor may be zero. Its result
    has the type \<open>ieee_double\<close> below, with the special values of IEEE 754.
  \<^item> \<^verbatim>\<open>long long\<close> is a 64-bit word read as two's complement (\<open>sint\<close>); the subtraction
    of two timestamps wraps around, which is what the usual targets compute where C++
    leaves signed overflow undefined.
  \<^item> \<^verbatim>\<open>int\<close> (the two counters) is a 32-bit word.
  \<^item> \<^verbatim>\<open>size_t\<close> indices are natural numbers; the one subtraction on them
    (\<^verbatim>\<open>coordinates.size() - 1\<close>) has its wrap-around written out.
\<close>

record Coordinate =
  lat :: real
  lon :: real
  time :: "64 word"

datatype ieee_double = Finite real | PlusInf | MinusInf | NaN

text \<open>
  \<^verbatim>\<open>x / y\<close> on doubles, for finite operands. The divisor of the program is a
  \<^verbatim>\<open>long long\<close> converted to \<^verbatim>\<open>double\<close>, so a zero divisor is the positive zero:
  a positive dividend gives \<open>+inf\<close>, a negative one \<open>-inf\<close>, and \<open>0 / 0\<close> is not a number.
\<close>

definition ddiv :: "real \<Rightarrow> real \<Rightarrow> ieee_double" where
  "ddiv x y =
     (if y \<noteq> 0 then Finite (x / y)
      else if 0 < x then PlusInf
      else if x < 0 then MinusInf
      else NaN)"

text \<open>\<^verbatim>\<open>x > t\<close> on doubles, for a finite \<open>t\<close>: every comparison with a NaN is false.\<close>

fun dgt :: "ieee_double \<Rightarrow> real \<Rightarrow> bool" where
  "dgt (Finite v) t = (t < v)"
| "dgt PlusInf t = True"
| "dgt MinusInf t = False"
| "dgt NaN t = False"

text \<open>The conversion of a \<^verbatim>\<open>long long\<close> to \<^verbatim>\<open>double\<close> (exact in this model).\<close>

definition to_double :: "64 word \<Rightarrow> real" where
  "to_double t = real_of_int (sint t)"

section \<open>Distance estimator\<close>

text \<open>
  \<^verbatim>\<open>atan2(y, x)\<close> of the C library on finite arguments: the angle of the point \<open>(x, y)\<close>
  in \<open>(-pi, pi]\<close>, and \<open>0\<close> at the origin.
\<close>

definition atan2 :: "real \<Rightarrow> real \<Rightarrow> real" where
  "atan2 y x =
     (if 0 < x then arctan (y / x)
      else if x < 0 then (if 0 \<le> y then arctan (y / x) + pi else arctan (y / x) - pi)
      else if 0 < y then pi / 2
      else if y < 0 then - (pi / 2)
      else 0)"

text \<open>\<^verbatim>\<open>haversine_distance\<close>, lines 25 to 38.\<close>

definition haversine_distance :: "real \<Rightarrow> real \<Rightarrow> real \<Rightarrow> real \<Rightarrow> real" where
  "haversine_distance lat1 lon1 lat2 lon2 =
     (let R = 6371000;
          phi1 = lat1 * pi / 180;
          phi2 = lat2 * pi / 180;
          delta_phi = (lat2 - lat1) * pi / 180;
          delta_lambda = (lon2 - lon1) * pi / 180;
          a = sin (delta_phi / 2) * sin (delta_phi / 2) +
              cos phi1 * cos phi2 *
              sin (delta_lambda / 2) * sin (delta_lambda / 2);
          c = 2 * atan2 (sqrt a) (sqrt (1 - a))
      in R * c)"

section \<open>Anomaly corrector\<close>

text \<open>
  The three values that \<^verbatim>\<open>process_coordinates\<close> writes to its output object, which are
  also the three variables its loop updates.
\<close>

record Output =
  corrected_points :: "Coordinate list"
  anomalies_detected :: "32 word"
  anomalies_corrected :: "32 word"

definition initial :: Output where
  "initial = \<lparr>corrected_points = [], anomalies_detected = 0, anomalies_corrected = 0\<rparr>"

text \<open>
  \<^verbatim>\<open>coordinates.size() - 1\<close> in \<^verbatim>\<open>size_t\<close> arithmetic (64 bits): it wraps to
  \<open>2^64 - 1\<close> for the empty vector.
\<close>

definition size_minus_one :: "nat \<Rightarrow> nat" where
  "size_minus_one n = (if n = 0 then 2 ^ 64 - 1 else n - 1)"

text \<open>The body of the loop, lines 49 to 69, at index \<open>i\<close>.\<close>

definition loop_body :: "Coordinate list \<Rightarrow> nat \<Rightarrow> Output \<Rightarrow> Output" where
  "loop_body coordinates i st =
     (if 0 < i \<and> i < size_minus_one (length coordinates) then
        let distance_prev =
              haversine_distance (lat (coordinates ! i)) (lon (coordinates ! i))
                (lat (coordinates ! (i - 1))) (lon (coordinates ! (i - 1)));
            distance_next =
              haversine_distance (lat (coordinates ! i)) (lon (coordinates ! i))
                (lat (coordinates ! (i + 1))) (lon (coordinates ! (i + 1)));
            speed_prev =
              ddiv distance_prev
                (to_double (time (coordinates ! i) - time (coordinates ! (i - 1))));
            speed_next =
              ddiv distance_next
                (to_double (time (coordinates ! (i + 1)) - time (coordinates ! i)))
        in if dgt speed_prev 200 \<or> dgt speed_next 200 then
             let interpolated_point =
                   \<lparr>lat = (lat (coordinates ! (i - 1)) + lat (coordinates ! (i + 1))) / 2,
                    lon = (lon (coordinates ! (i - 1)) + lon (coordinates ! (i + 1))) / 2,
                    time = time (coordinates ! i)\<rparr>
             in st\<lparr>corrected_points := corrected_points st @ [interpolated_point],
                   anomalies_detected := anomalies_detected st + 1,
                   anomalies_corrected := anomalies_corrected st + 1\<rparr>
           else st\<lparr>corrected_points := corrected_points st @ [coordinates ! i]\<rparr>
      else st\<lparr>corrected_points := corrected_points st @ [coordinates ! i]\<rparr>)"

text \<open>
  The loop \<^verbatim>\<open>for (size_t i = 0; i < coordinates.size(); ++i)\<close>: \<open>iterations cs k\<close> is the
  state after the iterations \<open>0, ..., k - 1\<close>, and the function returns the state after
  \<open>length cs\<close> of them.
\<close>

primrec iterations :: "Coordinate list \<Rightarrow> nat \<Rightarrow> Output" where
  "iterations coordinates 0 = initial"
| "iterations coordinates (Suc i) = loop_body coordinates i (iterations coordinates i)"

definition process_coordinates :: "Coordinate list \<Rightarrow> Output" where
  "process_coordinates coordinates = iterations coordinates (length coordinates)"

text \<open>
  Iteration \<open>i\<close> classifies its point as anomalous when it takes the branch of line 55,
  which is the branch that increments \<^verbatim>\<open>anomalies_detected\<close>.
\<close>

definition classified_anomalous :: "Coordinate list \<Rightarrow> nat \<Rightarrow> bool" where
  "classified_anomalous coordinates i \<longleftrightarrow>
     anomalies_detected (iterations coordinates (Suc i)) =
       anomalies_detected (iterations coordinates i) + 1"

section \<open>The classification rule and the replacement as the specification words them\<close>

definition spec_speed_prev :: "Coordinate list \<Rightarrow> nat \<Rightarrow> ieee_double" where
  "spec_speed_prev cs i =
     ddiv (haversine_distance (lat (cs ! i)) (lon (cs ! i))
             (lat (cs ! (i - 1))) (lon (cs ! (i - 1))))
          (to_double (time (cs ! i) - time (cs ! (i - 1))))"

definition spec_speed_next :: "Coordinate list \<Rightarrow> nat \<Rightarrow> ieee_double" where
  "spec_speed_next cs i =
     ddiv (haversine_distance (lat (cs ! i)) (lon (cs ! i))
             (lat (cs ! (i + 1))) (lon (cs ! (i + 1))))
          (to_double (time (cs ! (i + 1)) - time (cs ! i)))"

definition spec_anomalous :: "Coordinate list \<Rightarrow> nat \<Rightarrow> bool" where
  "spec_anomalous cs i \<longleftrightarrow> dgt (spec_speed_prev cs i) 200 \<or> dgt (spec_speed_next cs i) 200"

definition midpoint :: "Coordinate list \<Rightarrow> nat \<Rightarrow> Coordinate" where
  "midpoint cs i =
     \<lparr>lat = (lat (cs ! (i - 1)) + lat (cs ! (i + 1))) / 2,
      lon = (lon (cs ! (i - 1)) + lon (cs ! (i + 1))) / 2,
      time = time (cs ! i)\<rparr>"

section \<open>The loop in closed form\<close>

text \<open>The element that the loop appends at index \<open>i\<close>.\<close>

definition expected_point :: "Coordinate list \<Rightarrow> nat \<Rightarrow> Coordinate" where
  "expected_point cs i =
     (if 0 < i \<and> i + 1 < length cs \<and> spec_anomalous cs i then midpoint cs i else cs ! i)"

text \<open>The indices at which the loop takes the branch of line 55.\<close>

definition flagged :: "Coordinate list \<Rightarrow> nat \<Rightarrow> bool" where
  "flagged cs i \<longleftrightarrow> 0 < i \<and> i + 1 < length cs \<and> spec_anomalous cs i"

section \<open>The two guarded policies for a zero elapsed time, as the specification words them\<close>

text \<open>
  Policy (a): a zero elapsed time makes the speed term infinite, which forces the
  classification. Policy (b): a zero elapsed time skips that speed comparison.
  Otherwise both compare the quotient with the threshold.
\<close>

definition exceeds_infinite :: "real \<Rightarrow> real \<Rightarrow> bool" where
  "exceeds_infinite d dt = (if dt = 0 then True else 200 < d / dt)"

definition exceeds_skip :: "real \<Rightarrow> real \<Rightarrow> bool" where
  "exceeds_skip d dt = (if dt = 0 then False else 200 < d / dt)"

definition anomalous_under :: "(real \<Rightarrow> real \<Rightarrow> bool) \<Rightarrow> Coordinate list \<Rightarrow> nat \<Rightarrow> bool" where
  "anomalous_under exceeds cs i \<longleftrightarrow>
     exceeds (haversine_distance (lat (cs ! i)) (lon (cs ! i))
                (lat (cs ! (i - 1))) (lon (cs ! (i - 1))))
             (to_double (time (cs ! i) - time (cs ! (i - 1)))) \<or>
     exceeds (haversine_distance (lat (cs ! i)) (lon (cs ! i))
                (lat (cs ! (i + 1))) (lon (cs ! (i + 1))))
             (to_double (time (cs ! (i + 1)) - time (cs ! i)))"

section \<open>Sample trajectories\<close>

text \<open>
  The scenario of the specification: one degree of latitude (about 111 km) in one second
  and back.
\<close>

definition jump_trajectory :: "Coordinate list" where
  "jump_trajectory =
     [\<lparr>lat = 0, lon = 0, time = 0\<rparr>,
      \<lparr>lat = 1, lon = 0, time = 1\<rparr>,
      \<lparr>lat = 0, lon = 0, time = 2\<rparr>]"

text \<open>The scenario of the specification without movement.\<close>

definition still_trajectory :: "Coordinate list" where
  "still_trajectory =
     [\<lparr>lat = 0, lon = 0, time = 0\<rparr>,
      \<lparr>lat = 0, lon = 0, time = 100\<rparr>,
      \<lparr>lat = 0, lon = 0, time = 200\<rparr>]"

text \<open>The same jump, followed by one more fix: the points at 1 and at 2 are both anomalous.\<close>

definition adjacent_trajectory :: "Coordinate list" where
  "adjacent_trajectory =
     [\<lparr>lat = 0, lon = 0, time = 0\<rparr>,
      \<lparr>lat = 1, lon = 0, time = 1\<rparr>,
      \<lparr>lat = 0, lon = 0, time = 2\<rparr>,
      \<lparr>lat = 0, lon = 0, time = 3\<rparr>]"

text \<open>Two fixes only.\<close>

definition short_trajectory :: "Coordinate list" where
  "short_trajectory =
     [\<lparr>lat = 0, lon = 0, time = 0\<rparr>,
      \<lparr>lat = 1, lon = 0, time = 1\<rparr>]"

text \<open>
  The trajectory \<open>adjacent_trajectory\<close> with another first fix: the two agree at the
  indices 1, 2 and 3.
\<close>

definition shifted_trajectory :: "Coordinate list" where
  "shifted_trajectory =
     [\<lparr>lat = 5, lon = 5, time = 0\<rparr>,
      \<lparr>lat = 1, lon = 0, time = 1\<rparr>,
      \<lparr>lat = 0, lon = 0, time = 2\<rparr>,
      \<lparr>lat = 0, lon = 0, time = 3\<rparr>]"

text \<open>
  Duplicate timestamps: the fixes at 0 and 1 share a timestamp and are one degree apart,
  the fixes at 2 and 3 share a timestamp and a position.
\<close>

definition duplicate_trajectory :: "Coordinate list" where
  "duplicate_trajectory =
     [\<lparr>lat = 0, lon = 0, time = 0\<rparr>,
      \<lparr>lat = 1, lon = 0, time = 0\<rparr>,
      \<lparr>lat = 1, lon = 0, time = 100\<rparr>,
      \<lparr>lat = 1, lon = 0, time = 100\<rparr>,
      \<lparr>lat = 1, lon = 0, time = 200\<rparr>]"

section \<open>The loop and its closed form agree\<close>

lemma interior_iff:
  "i < length cs \<Longrightarrow> (0 < i \<and> i < size_minus_one (length cs)) = (0 < i \<and> i + 1 < length cs)"
  by (auto simp: size_minus_one_def)

lemma loop_body_eq:
  assumes "i < length cs"
  shows "loop_body cs i st =
           (if flagged cs i
            then st\<lparr>corrected_points := corrected_points st @ [midpoint cs i],
                    anomalies_detected := anomalies_detected st + 1,
                    anomalies_corrected := anomalies_corrected st + 1\<rparr>
            else st\<lparr>corrected_points := corrected_points st @ [cs ! i]\<rparr>)"
  unfolding loop_body_def interior_iff [OF assms]
  by (simp add: flagged_def spec_anomalous_def spec_speed_prev_def spec_speed_next_def
      midpoint_def Let_def)

lemma loop_body_points:
  "i < length cs \<Longrightarrow>
   corrected_points (loop_body cs i st) = corrected_points st @ [expected_point cs i]"
  by (simp add: loop_body_eq expected_point_def flagged_def)

lemma loop_body_detected:
  "i < length cs \<Longrightarrow>
   anomalies_detected (loop_body cs i st) =
     anomalies_detected st + (if flagged cs i then 1 else 0)"
  by (simp add: loop_body_eq)

lemma loop_body_corrected:
  "i < length cs \<Longrightarrow>
   anomalies_corrected (loop_body cs i st) =
     anomalies_corrected st + (if flagged cs i then 1 else 0)"
  by (simp add: loop_body_eq)

lemma iterations_points:
  "k \<le> length cs \<Longrightarrow> corrected_points (iterations cs k) = map (expected_point cs) [0..<k]"
  by (induction k) (simp_all add: initial_def loop_body_points)

lemma iterations_detected:
  "k \<le> length cs \<Longrightarrow>
   anomalies_detected (iterations cs k) = of_nat (length (filter (flagged cs) [0..<k]))"
  by (induction k) (simp_all add: initial_def loop_body_detected)

lemma iterations_corrected:
  "k \<le> length cs \<Longrightarrow>
   anomalies_corrected (iterations cs k) = of_nat (length (filter (flagged cs) [0..<k]))"
  by (induction k) (simp_all add: initial_def loop_body_corrected)

lemma process_points:
  "corrected_points (process_coordinates cs) = map (expected_point cs) [0..<length cs]"
  by (simp add: process_coordinates_def iterations_points)

lemma process_nth:
  "i < length cs \<Longrightarrow> corrected_points (process_coordinates cs) ! i = expected_point cs i"
  by (simp add: process_points)

lemma classified_iff_flagged:
  "i < length cs \<Longrightarrow> classified_anomalous cs i \<longleftrightarrow> flagged cs i"
  by (simp add: classified_anomalous_def loop_body_detected)

lemma classified_interior:
  "0 < i \<Longrightarrow> i + 1 < length cs \<Longrightarrow> classified_anomalous cs i \<longleftrightarrow> spec_anomalous cs i"
  by (simp add: classified_iff_flagged flagged_def)

section \<open>The reads of the loop and the square roots of the distance\<close>

text \<open>
  An index that passes the guard of line 49 has both neighbours inside the vector, so
  every read of the loop body is in range.
\<close>

lemma window_in_range:
  "i < n \<Longrightarrow> 0 < i \<and> i < size_minus_one n \<Longrightarrow> i - 1 < n \<and> i + 1 < n"
  by (auto simp: size_minus_one_def)

text \<open>
  In exact arithmetic the term \<^verbatim>\<open>a\<close> of line 32 lies between 0 and 1, so both square
  roots of line 35 are taken of non-negative numbers. The source does not clamp
  \<^verbatim>\<open>a\<close>: this bound is a fact of the exact formula only, and the values that
  \<open>haversine_distance\<close> takes here are not the rounded values of the doubles. The
  theorems on the corrector below do not unfold the distance.
\<close>

lemma haversine_term_bounds:
  fixes p q l :: real
  defines "a \<equiv> sin ((q - p) / 2) * sin ((q - p) / 2) +
                cos p * cos q * sin (l / 2) * sin (l / 2)"
  shows "0 \<le> a \<and> a \<le> 1"
proof -
  define s where "s = sin (l / 2) * sin (l / 2)"
  have s0: "0 \<le> s"
    by (simp add: s_def)
  have s1: "s \<le> 1"
    using sin_cos_squared_add3 [of "l / 2"] zero_le_square [of "cos (l / 2)"]
    unfolding s_def by linarith
  have h: "sin ((q - p) / 2) * sin ((q - p) / 2) = (1 - cos (q - p)) / 2"
    using sin_times_sin [of "(q - p) / 2" "(q - p) / 2"] by simp
  have c: "cos p * cos q = (cos (q - p) + cos (p + q)) / 2"
    using cos_times_cos [of p q] cos_minus [of "q - p"] by simp
  have "a = (1 - cos (q - p)) / 2 + (cos (q - p) + cos (p + q)) / 2 * s"
    unfolding a_def s_def h c by (simp add: mult.assoc)
  then have a_eq: "a = (1 - (1 - s) * cos (q - p) + s * cos (p + q)) / 2"
    by (simp add: field_simps)
  have b1: "(1 - s) * cos (q - p) \<le> 1 - s"
    using s1 cos_le_one [of "q - p"] by (simp add: mult_left_le)
  have b2: "- (1 - s) \<le> (1 - s) * cos (q - p)"
    using s1 cos_ge_minus_one [of "q - p"] mult_left_mono [of "-1" "cos (q - p)" "1 - s"]
    by simp
  have b3: "- s \<le> s * cos (p + q)"
    using s0 cos_ge_minus_one [of "p + q"] mult_left_mono [of "-1" "cos (p + q)" s]
    by simp
  have b4: "s * cos (p + q) \<le> s"
    using s0 cos_le_one [of "p + q"] by (simp add: mult_left_le)
  show ?thesis
    unfolding a_eq using b1 b2 b3 b4 by simp
qed

section \<open>Values of the distance estimator\<close>

lemma haversine_same_point: "haversine_distance la lo la lo = 0"
  by (simp add: haversine_distance_def atan2_def)

lemma atan2_sin_cos:
  assumes "- (pi / 2) < x" and "x < pi / 2"
  shows "atan2 (sin x) (cos x) = x"
proof -
  have "0 < cos x"
    using assms by (simp add: cos_gt_zero_pi)
  then have "atan2 (sin x) (cos x) = arctan (tan x)"
    by (simp add: atan2_def tan_def)
  then show ?thesis
    using assms by (simp add: arctan_tan)
qed

lemma half_degree:
  "6371000 * (2 * atan2 (sqrt (sin (pi / 360) * sin (pi / 360)))
                        (sqrt (1 - sin (pi / 360) * sin (pi / 360)))) = 6371000 * (pi / 180)"
proof -
  define x :: real where "x = pi / 360"
  have r: "0 < x" "x < pi / 2"
    by (simp_all add: x_def)
  have s: "0 < sin x"
    using r by (simp add: sin_gt_zero)
  have c: "0 < cos x"
    using r by (simp add: cos_gt_zero)
  have e: "1 - sin x * sin x = cos x * cos x"
    using sin_cos_squared_add3 [of x] by linarith
  have "atan2 (sqrt (sin x * sin x)) (sqrt (1 - sin x * sin x)) = atan2 (sin x) (cos x)"
    using s c by (simp add: e)
  also have "\<dots> = x"
    using r by (simp add: atan2_sin_cos)
  finally show ?thesis
    by (simp add: x_def)
qed

lemma haversine_degree_south: "haversine_distance 1 0 0 0 = 6371000 * (pi / 180)"
  using half_degree by (simp add: haversine_distance_def Let_def)

lemma haversine_degree_north: "haversine_distance 0 0 1 0 = 6371000 * (pi / 180)"
  using half_degree by (simp add: haversine_distance_def Let_def)

lemma degree_exceeds: "200 < 6371000 * (pi / 180)"
  using pi_ge_two by simp

lemmas sample_values =
  haversine_same_point haversine_degree_south haversine_degree_north
  ddiv_def to_double_def

lemma jump_anomalous: "spec_anomalous jump_trajectory 1"
  using degree_exceeds
  by (simp add: spec_anomalous_def spec_speed_prev_def jump_trajectory_def sample_values)

lemma adjacent_anomalous_1: "spec_anomalous adjacent_trajectory 1"
  using degree_exceeds
  by (simp add: spec_anomalous_def spec_speed_prev_def adjacent_trajectory_def sample_values)

lemma adjacent_anomalous_2: "spec_anomalous adjacent_trajectory 2"
  using degree_exceeds
  by (simp add: spec_anomalous_def spec_speed_prev_def adjacent_trajectory_def sample_values)

section \<open>The scenarios of the specification, run on the loop itself\<close>

lemma jump_scenario:
  "process_coordinates jump_trajectory =
     \<lparr>corrected_points =
        [\<lparr>lat = 0, lon = 0, time = 0\<rparr>,
         \<lparr>lat = 0, lon = 0, time = 1\<rparr>,
         \<lparr>lat = 0, lon = 0, time = 2\<rparr>],
      anomalies_detected = 1, anomalies_corrected = 1\<rparr>"
  using degree_exceeds
  by (simp add: process_coordinates_def jump_trajectory_def numeral_3_eq_3 loop_body_def
      size_minus_one_def Let_def initial_def sample_values)

lemma still_scenario:
  "process_coordinates still_trajectory =
     \<lparr>corrected_points = still_trajectory, anomalies_detected = 0, anomalies_corrected = 0\<rparr>"
  by (simp add: process_coordinates_def still_trajectory_def numeral_3_eq_3 loop_body_def
      size_minus_one_def Let_def initial_def sample_values)

section \<open>Division by a zero elapsed time\<close>

lemma to_double_diff_zero: "to_double (a - b) = 0 \<longleftrightarrow> a = b"
  by (simp add: to_double_def signed_eq_0_iff)

lemma exceeds_at_zero: "dgt (ddiv d 0) 200 \<longleftrightarrow> 0 < d"
  by (simp add: ddiv_def)

lemma exceeds_at_nonzero: "dt \<noteq> 0 \<Longrightarrow> dgt (ddiv d dt) 200 \<longleftrightarrow> 200 < d / dt"
  by (simp add: ddiv_def)

lemma exceeds_unguarded:
  "dgt (ddiv d (to_double (a - b))) 200 \<longleftrightarrow>
     (if a = b then 0 < d else 200 < d / to_double (a - b))"
proof (cases "a = b")
  case True
  then have "to_double (a - b) = 0"
    using to_double_diff_zero [of a b] by blast
  then show ?thesis
    using True by (simp add: exceeds_at_zero)
next
  case False
  then have "to_double (a - b) \<noteq> 0"
    using to_double_diff_zero [of a b] by blast
  then show ?thesis
    using False by (simp add: exceeds_at_nonzero)
qed

lemma duplicate_flagged_1: "spec_anomalous duplicate_trajectory 1"
  using degree_exceeds
  by (simp add: spec_anomalous_def spec_speed_prev_def duplicate_trajectory_def sample_values)

lemma duplicate_not_flagged_3: "\<not> spec_anomalous duplicate_trajectory 3"
  by (simp add: spec_anomalous_def spec_speed_prev_def spec_speed_next_def
      duplicate_trajectory_def sample_values)

section \<open>Classification rule\<close>

text \<open>
  C1: for every input trajectory and every interior index \<open>i\<close> (\<open>0 < i < n - 1\<close>), the
  point at \<open>i\<close> is classified anomalous, and hence replaced, if and only if
  \<open>speed_prev > 200.0\<close> or \<open>speed_next > 200.0\<close>, where the two speeds are the haversine
  distances from the original point \<open>i\<close> to its original neighbours divided by the
  elapsed times.
\<close>

theorem classification_rule:
  assumes "0 < i" and "i + 1 < length cs"
  shows "(classified_anomalous cs i \<longleftrightarrow>
            dgt (spec_speed_prev cs i) 200 \<or> dgt (spec_speed_next cs i) 200) \<and>
         corrected_points (process_coordinates cs) ! i =
           (if dgt (spec_speed_prev cs i) 200 \<or> dgt (spec_speed_next cs i) 200
            then midpoint cs i else cs ! i)"
  using assms
  by (simp add: classified_interior process_nth expected_point_def spec_anomalous_def)

theorem classification_rule_witness:
  "0 < (1::nat) \<and> 1 + 1 < length jump_trajectory \<and>
   classified_anomalous jump_trajectory 1 \<and>
   corrected_points (process_coordinates jump_trajectory) ! 1 = \<lparr>lat = 0, lon = 0, time = 1\<rparr>"
  using classification_rule [of 1 jump_trajectory] jump_anomalous
  by (simp add: spec_anomalous_def jump_trajectory_def midpoint_def)

section \<open>Interpolation\<close>

text \<open>
  C2: for every input trajectory and every interior index \<open>i\<close> flagged anomalous, the
  output element at \<open>i\<close> has the latitude \<open>(input[i-1].lat + input[i+1].lat) / 2\<close>, the
  longitude \<open>(input[i-1].lon + input[i+1].lon) / 2\<close> and the timestamp of \<open>input[i]\<close>.
\<close>

theorem interpolation:
  assumes "0 < i" and "i + 1 < length cs" and "classified_anomalous cs i"
  shows "lat (corrected_points (process_coordinates cs) ! i) =
           (lat (cs ! (i - 1)) + lat (cs ! (i + 1))) / 2 \<and>
         lon (corrected_points (process_coordinates cs) ! i) =
           (lon (cs ! (i - 1)) + lon (cs ! (i + 1))) / 2 \<and>
         time (corrected_points (process_coordinates cs) ! i) = time (cs ! i)"
  using assms
  by (simp add: classified_interior process_nth expected_point_def midpoint_def)

theorem interpolation_witness:
  "0 < (1::nat) \<and> 1 + 1 < length jump_trajectory \<and>
   classified_anomalous jump_trajectory 1 \<and>
   lat (corrected_points (process_coordinates jump_trajectory) ! 1) = 0 \<and>
   lon (corrected_points (process_coordinates jump_trajectory) ! 1) = 0 \<and>
   time (corrected_points (process_coordinates jump_trajectory) ! 1) = 1"
proof -
  have c: "classified_anomalous jump_trajectory 1"
    using jump_anomalous by (simp add: classified_interior jump_trajectory_def)
  show ?thesis
    using c interpolation [of 1 jump_trajectory]
    by (simp add: jump_trajectory_def)
qed

section \<open>Window semantics\<close>

text \<open>
  C3: the classification of index \<open>i\<close> and the replacement at index \<open>i\<close> read only the
  original input points at \<open>i - 1\<close>, \<open>i\<close> and \<open>i + 1\<close>, never corrected values: any
  trajectory with the same three original points gives the same classification and the
  same output element at \<open>i\<close>, and two adjacent anomalous points are each replaced by the
  midpoint of their original neighbours.
\<close>

theorem no_cascade:
  assumes "0 < i" and "i + 1 < length cs"
  shows "(\<forall>cs'. i + 1 < length cs' \<and> cs' ! (i - 1) = cs ! (i - 1) \<and> cs' ! i = cs ! i \<and>
                 cs' ! (i + 1) = cs ! (i + 1) \<longrightarrow>
            (classified_anomalous cs' i \<longleftrightarrow> classified_anomalous cs i) \<and>
            corrected_points (process_coordinates cs') ! i =
              corrected_points (process_coordinates cs) ! i) \<and>
         (i + 2 < length cs \<and> classified_anomalous cs i \<and> classified_anomalous cs (i + 1) \<longrightarrow>
            corrected_points (process_coordinates cs) ! i = midpoint cs i \<and>
            corrected_points (process_coordinates cs) ! (i + 1) = midpoint cs (i + 1))"
proof (intro conjI allI impI)
  fix cs'
  assume h: "i + 1 < length cs' \<and> cs' ! (i - 1) = cs ! (i - 1) \<and> cs' ! i = cs ! i \<and>
             cs' ! (i + 1) = cs ! (i + 1)"
  then have same: "spec_anomalous cs' i = spec_anomalous cs i" "midpoint cs' i = midpoint cs i"
    by (simp_all add: spec_anomalous_def spec_speed_prev_def spec_speed_next_def midpoint_def)
  show "classified_anomalous cs' i \<longleftrightarrow> classified_anomalous cs i"
    using assms h same by (simp add: classified_interior)
  show "corrected_points (process_coordinates cs') ! i =
          corrected_points (process_coordinates cs) ! i"
    using assms h same by (simp add: process_nth expected_point_def)
next
  assume h: "i + 2 < length cs \<and> classified_anomalous cs i \<and> classified_anomalous cs (i + 1)"
  have "spec_anomalous cs i"
    using assms h classified_interior [of i cs] by simp
  then show "corrected_points (process_coordinates cs) ! i = midpoint cs i"
    using assms by (simp add: process_nth expected_point_def)
  have "spec_anomalous cs (i + 1)"
    using h classified_interior [of "i + 1" cs] by simp
  then show "corrected_points (process_coordinates cs) ! (i + 1) = midpoint cs (i + 1)"
    using h by (simp add: process_nth expected_point_def)
qed

theorem no_cascade_witness:
  "0 < (2::nat) \<and> 2 + 1 < length adjacent_trajectory \<and>
   (2 + 1 < length shifted_trajectory \<and>
    shifted_trajectory ! (2 - 1) = adjacent_trajectory ! (2 - 1) \<and>
    shifted_trajectory ! 2 = adjacent_trajectory ! 2 \<and>
    shifted_trajectory ! (2 + 1) = adjacent_trajectory ! (2 + 1)) \<and>
   corrected_points (process_coordinates shifted_trajectory) ! 2 =
     corrected_points (process_coordinates adjacent_trajectory) ! 2 \<and>
   corrected_points (process_coordinates shifted_trajectory) ! 1 \<noteq>
     corrected_points (process_coordinates adjacent_trajectory) ! 1 \<and>
   0 < (1::nat) \<and> 1 + 1 < length adjacent_trajectory \<and>
   (1 + 2 < length adjacent_trajectory \<and>
    classified_anomalous adjacent_trajectory 1 \<and>
    classified_anomalous adjacent_trajectory (1 + 1)) \<and>
   corrected_points (process_coordinates adjacent_trajectory) ! 1 =
     \<lparr>lat = 0, lon = 0, time = 1\<rparr> \<and>
   corrected_points (process_coordinates adjacent_trajectory) ! (1 + 1) =
     \<lparr>lat = 1 / 2, lon = 0, time = 2\<rparr>"
proof -
  have e: "(1::nat) + 1 = 2"
    by simp
  have h2: "0 < (2::nat)" "2 + 1 < length adjacent_trajectory"
    by (simp_all add: adjacent_trajectory_def)
  have h1: "0 < (1::nat)" "1 + 1 < length adjacent_trajectory"
    by (simp_all add: adjacent_trajectory_def)
  have win: "2 + 1 < length shifted_trajectory \<and>
    shifted_trajectory ! (2 - 1) = adjacent_trajectory ! (2 - 1) \<and>
    shifted_trajectory ! 2 = adjacent_trajectory ! 2 \<and>
    shifted_trajectory ! (2 + 1) = adjacent_trajectory ! (2 + 1)"
    by (simp add: adjacent_trajectory_def shifted_trajectory_def)
  have c1: "classified_anomalous adjacent_trajectory 1"
    using adjacent_anomalous_1 by (simp add: classified_interior adjacent_trajectory_def)
  have c2: "classified_anomalous adjacent_trajectory 2"
    using adjacent_anomalous_2 by (simp add: classified_interior adjacent_trajectory_def)
  have adj: "1 + 2 < length adjacent_trajectory \<and>
    classified_anomalous adjacent_trajectory 1 \<and>
    classified_anomalous adjacent_trajectory (1 + 1)"
    unfolding e using c1 c2 by (simp add: adjacent_trajectory_def)
  have m1: "midpoint adjacent_trajectory 1 = \<lparr>lat = 0, lon = 0, time = 1\<rparr>"
    by (simp add: midpoint_def adjacent_trajectory_def)
  have m2: "midpoint adjacent_trajectory (1 + 1) = \<lparr>lat = 1 / 2, lon = 0, time = 2\<rparr>"
    unfolding e by (simp add: midpoint_def adjacent_trajectory_def)
  have a: "corrected_points (process_coordinates shifted_trajectory) ! 2 =
             corrected_points (process_coordinates adjacent_trajectory) ! 2"
    using no_cascade [OF h2, THEN conjunct1, rule_format, OF win] by (rule conjunct2)
  have b: "corrected_points (process_coordinates adjacent_trajectory) ! 1 =
             midpoint adjacent_trajectory 1 \<and>
           corrected_points (process_coordinates adjacent_trajectory) ! (1 + 1) =
             midpoint adjacent_trajectory (1 + 1)"
    using no_cascade [OF h1, THEN conjunct2, rule_format, OF adj] .
  have s: "spec_anomalous shifted_trajectory 1"
    using degree_exceeds
    by (simp add: spec_anomalous_def spec_speed_next_def shifted_trajectory_def sample_values)
  have "corrected_points (process_coordinates shifted_trajectory) ! 1 =
          \<lparr>lat = 5 / 2, lon = 5 / 2, time = 1\<rparr>"
    using s by (simp add: process_nth expected_point_def midpoint_def shifted_trajectory_def)
  then have d: "corrected_points (process_coordinates shifted_trajectory) ! 1 \<noteq>
                  corrected_points (process_coordinates adjacent_trajectory) ! 1"
    using b m1 by simp
  show ?thesis
    using h2 win a d h1 adj b [unfolded m1 m2] by blast
qed

section \<open>Length preservation\<close>

text \<open>
  C4: for every input trajectory, the empty one included, the corrected sequence has
  exactly as many elements as the input.
\<close>

theorem length_preserved:
  "length (corrected_points (process_coordinates cs)) = length cs"
  by (simp add: process_points)

section \<open>Endpoints\<close>

text \<open>
  C5: for every non-empty input trajectory, the first and the last output elements are the
  first and the last input elements; the endpoints are never classified or replaced.
\<close>

theorem endpoints_unchanged:
  assumes "cs \<noteq> []"
  shows "corrected_points (process_coordinates cs) ! 0 = cs ! 0 \<and>
         corrected_points (process_coordinates cs) ! (length cs - 1) = cs ! (length cs - 1) \<and>
         \<not> classified_anomalous cs 0 \<and>
         \<not> classified_anomalous cs (length cs - 1)"
  using assms
  by (simp add: process_nth expected_point_def classified_iff_flagged flagged_def)

theorem endpoints_unchanged_witness:
  "jump_trajectory \<noteq> [] \<and>
   corrected_points (process_coordinates jump_trajectory) ! 0 = \<lparr>lat = 0, lon = 0, time = 0\<rparr> \<and>
   corrected_points (process_coordinates jump_trajectory) ! (length jump_trajectory - 1) =
     \<lparr>lat = 0, lon = 0, time = 2\<rparr>"
  using endpoints_unchanged [of jump_trajectory]
  by (simp add: jump_trajectory_def)

section \<open>Short sequences\<close>

text \<open>
  C6: for every input trajectory of length 0, 1 or 2, the corrector does not fail (no index
  passes the guard of line 49, so no neighbour is read), the output sequence equals the
  input sequence, and both counters are 0.
\<close>

theorem short_passthrough:
  assumes "length cs \<le> 2"
  shows "(\<forall>i<length cs. \<not> (0 < i \<and> i < size_minus_one (length cs))) \<and>
         corrected_points (process_coordinates cs) = cs \<and>
         anomalies_detected (process_coordinates cs) = 0 \<and>
         anomalies_corrected (process_coordinates cs) = 0"
proof -
  have nf: "\<not> flagged cs i" for i
    using assms by (simp add: flagged_def)
  have "map (expected_point cs) [0..<length cs] = map ((!) cs) [0..<length cs]"
    using assms by (intro map_cong) (auto simp: expected_point_def)
  then have p: "corrected_points (process_coordinates cs) = cs"
    by (simp add: process_points map_nth)
  have f: "filter (flagged cs) [0..<length cs] = []"
    using nf by (simp add: filter_empty_conv)
  have g: "\<forall>i<length cs. \<not> (0 < i \<and> i < size_minus_one (length cs))"
    using assms by (auto simp: size_minus_one_def)
  show ?thesis
    using p f g
    by (simp add: process_coordinates_def iterations_detected iterations_corrected)
qed

theorem short_passthrough_witness:
  "length short_trajectory \<le> 2 \<and>
   process_coordinates short_trajectory =
     \<lparr>corrected_points = short_trajectory, anomalies_detected = 0, anomalies_corrected = 0\<rparr>"
  using short_passthrough [of short_trajectory]
  by (simp add: short_trajectory_def)

section \<open>Counters\<close>

text \<open>
  C7: for every input trajectory, the two counters returned are equal: every detection is
  corrected at once.
\<close>

theorem detected_equals_corrected:
  "anomalies_detected (process_coordinates cs) = anomalies_corrected (process_coordinates cs)"
  by (simp add: process_coordinates_def iterations_detected iterations_corrected)

section \<open>Zero elapsed time\<close>

text \<open>
  C8, as amended: the corrector divides by the elapsed time without a guard. At an
  interior index, a zero elapsed time to a neighbour makes that speed term \<open>+inf\<close> when the
  distance to the neighbour is positive, which classifies the point as anomalous, and
  not a number when the distance is zero, which makes that comparison false; a non-zero
  elapsed time compares the quotient with 200.
\<close>

theorem zero_elapsed_time:
  assumes "0 < i" and "i + 1 < length cs"
  shows "classified_anomalous cs i \<longleftrightarrow>
           (if time (cs ! i) = time (cs ! (i - 1))
            then 0 < haversine_distance (lat (cs ! i)) (lon (cs ! i))
                       (lat (cs ! (i - 1))) (lon (cs ! (i - 1)))
            else 200 < haversine_distance (lat (cs ! i)) (lon (cs ! i))
                         (lat (cs ! (i - 1))) (lon (cs ! (i - 1))) /
                       to_double (time (cs ! i) - time (cs ! (i - 1)))) \<or>
           (if time (cs ! (i + 1)) = time (cs ! i)
            then 0 < haversine_distance (lat (cs ! i)) (lon (cs ! i))
                       (lat (cs ! (i + 1))) (lon (cs ! (i + 1)))
            else 200 < haversine_distance (lat (cs ! i)) (lon (cs ! i))
                         (lat (cs ! (i + 1))) (lon (cs ! (i + 1))) /
                       to_double (time (cs ! (i + 1)) - time (cs ! i)))"
  unfolding classified_interior [OF assms] spec_anomalous_def spec_speed_prev_def
    spec_speed_next_def exceeds_unguarded
  by (rule refl)

theorem zero_elapsed_time_witness:
  "0 < (1::nat) \<and> 1 + 1 < length duplicate_trajectory \<and>
   time (duplicate_trajectory ! 1) = time (duplicate_trajectory ! (1 - 1)) \<and>
   0 < haversine_distance (lat (duplicate_trajectory ! 1)) (lon (duplicate_trajectory ! 1))
         (lat (duplicate_trajectory ! (1 - 1))) (lon (duplicate_trajectory ! (1 - 1))) \<and>
   classified_anomalous duplicate_trajectory 1"
  using zero_elapsed_time [of 1 duplicate_trajectory] degree_exceeds
  by (simp add: duplicate_trajectory_def haversine_degree_south)

text \<open>
  C8, as stated, fails: the corrector follows neither guarded policy. In
  \<open>duplicate_trajectory\<close> the fix at 1 has a zero elapsed time to its predecessor and is
  classified anomalous, which the policy that skips the comparison does not do; the fix
  at 3 has a zero elapsed time to its predecessor, its speed term is not a number, and it
  is not classified anomalous, which the policy of an infinite speed does.
\<close>

theorem guarded_policy_counterexample:
  "time (duplicate_trajectory ! 1) = time (duplicate_trajectory ! 0) \<and>
   classified_anomalous duplicate_trajectory 1 \<and>
   \<not> anomalous_under exceeds_skip duplicate_trajectory 1 \<and>
   time (duplicate_trajectory ! 3) = time (duplicate_trajectory ! 2) \<and>
   spec_speed_prev duplicate_trajectory 3 = NaN \<and>
   \<not> classified_anomalous duplicate_trajectory 3 \<and>
   anomalous_under exceeds_infinite duplicate_trajectory 3"
proof -
  have c1: "classified_anomalous duplicate_trajectory 1"
    using duplicate_flagged_1 by (simp add: classified_interior duplicate_trajectory_def)
  have c3: "\<not> classified_anomalous duplicate_trajectory 3"
    using duplicate_not_flagged_3 by (simp add: classified_interior duplicate_trajectory_def)
  have s1: "\<not> anomalous_under exceeds_skip duplicate_trajectory 1"
    by (simp add: anomalous_under_def exceeds_skip_def duplicate_trajectory_def sample_values)
  have i3: "anomalous_under exceeds_infinite duplicate_trajectory 3"
    by (simp add: anomalous_under_def exceeds_infinite_def duplicate_trajectory_def
        sample_values)
  have n3: "spec_speed_prev duplicate_trajectory 3 = NaN"
    by (simp add: spec_speed_prev_def duplicate_trajectory_def sample_values)
  have t: "time (duplicate_trajectory ! 1) = time (duplicate_trajectory ! 0)"
    "time (duplicate_trajectory ! 3) = time (duplicate_trajectory ! 2)"
    by (simp_all add: duplicate_trajectory_def)
  show ?thesis
    using c1 c3 s1 i3 n3 t by blast
qed

section \<open>Shape of every output element\<close>

text \<open>
  C10: for every input trajectory and every index \<open>i\<close>, the output element at \<open>i\<close> is
  either the input element at \<open>i\<close>, or, at an interior index only, the record with the
  midpoint latitude and longitude of \<open>input[i-1]\<close> and \<open>input[i+1]\<close> and the timestamp of
  \<open>input[i]\<close>; so the timestamp at every index is that of the input.
\<close>

theorem output_shape:
  assumes "i < length cs"
  shows "(corrected_points (process_coordinates cs) ! i = cs ! i \<or>
          0 < i \<and> i + 1 < length cs \<and>
          corrected_points (process_coordinates cs) ! i =
            \<lparr>lat = (lat (cs ! (i - 1)) + lat (cs ! (i + 1))) / 2,
             lon = (lon (cs ! (i - 1)) + lon (cs ! (i + 1))) / 2,
             time = time (cs ! i)\<rparr>) \<and>
         time (corrected_points (process_coordinates cs) ! i) = time (cs ! i)"
  using assms
  by (simp add: process_nth expected_point_def midpoint_def)

theorem output_shape_witness:
  "(1::nat) < length jump_trajectory \<and>
   corrected_points (process_coordinates jump_trajectory) ! 1 \<noteq> jump_trajectory ! 1 \<and>
   corrected_points (process_coordinates jump_trajectory) ! 1 =
     \<lparr>lat = (lat (jump_trajectory ! (1 - 1)) + lat (jump_trajectory ! (1 + 1))) / 2,
      lon = (lon (jump_trajectory ! (1 - 1)) + lon (jump_trajectory ! (1 + 1))) / 2,
      time = time (jump_trajectory ! 1)\<rparr> \<and>
   time (corrected_points (process_coordinates jump_trajectory) ! 1) = 1"
proof -
  have "corrected_points (process_coordinates jump_trajectory) ! 1 = \<lparr>lat = 0, lon = 0, time = 1\<rparr>"
    using jump_anomalous by (simp add: process_nth expected_point_def midpoint_def jump_trajectory_def)
  then show ?thesis
    using output_shape [of 1 jump_trajectory]
    by (simp add: jump_trajectory_def)
qed

end
